theory Spec2Isabelle
  imports Main
begin

section \<open>JavaScript values shared by the frontend models\<close>

text \<open>
  A JavaScript string is modelled as \<open>string\<close>; a value that may be \<open>null\<close> or
  \<open>undefined\<close> as an \<open>option\<close>. The operator \<open>a || b\<close> on such a string yields
  \<open>b\<close> when \<open>a\<close> is \<open>null\<close>, \<open>undefined\<close> or the empty string, and \<open>a\<close>
  otherwise.
\<close>

definition js_or :: "string option \<Rightarrow> string \<Rightarrow> string" where
  "js_or a b = (case a of None \<Rightarrow> b | Some s \<Rightarrow> if s = [] then b else s)"

text \<open>
  A value is falsy when it is \<open>null\<close>, \<open>undefined\<close> or the empty string. Inside a
  template literal \<open>null\<close> reads \<open>null\<close>.
\<close>

definition falsy :: "string option \<Rightarrow> bool" where
  "falsy t = (case t of None \<Rightarrow> True | Some s \<Rightarrow> s = [])"

definition js_template :: "string option \<Rightarrow> string" where
  "js_template t = (case t of None \<Rightarrow> ''null'' | Some s \<Rightarrow> s)"

section \<open>The session history route\<close>

text \<open>
  \<^verbatim>\<open>src/frontend/src/app/api/sessions/[sessionId]/history/route.ts\<close>, function
  \<open>GET\<close>. The route reads two environment variables and the incoming
  \<open>authorization\<close> header, calls \<open>fetch\<close> once and answers with a JSON
  response. The backend is a parameter: a function from the outgoing call to what
  \<open>fetch\<close> gives back, either a rejection (a network failure, a malformed address)
  or a response with its \<open>ok\<close> flag, its status and its body (\<open>None\<close> when
  \<open>response.json()\<close> throws).
\<close>

record process_env =
  BACKEND_URL :: "string option"
  NEXT_PUBLIC_BACKEND_URL :: "string option"

record next_request =
  authorization :: "string option"

record fetch_call =
  call_url :: string
  call_headers :: "(string \<times> string) list"

record 'j fetch_response =
  resp_ok :: bool
  resp_status :: nat
  resp_json :: "'j option"

datatype 'j fetch_result = FetchThrows | FetchResponse "'j fetch_response"

datatype 'j json_body = Detail string | Payload 'j

record 'j next_response =
  body :: "'j json_body"
  status :: nat

text \<open>The errors thrown inside the route's \<open>try\<close> block.\<close>

datatype js_error = RangeError | TypeError | SyntaxError

text \<open>
  The statuses of a response that cannot carry a body (the Fetch standard's null body
  statuses).
\<close>

definition null_body_status :: "nat \<Rightarrow> bool" where
  "null_body_status n = (n = 101 \<or> n = 103 \<or> n = 204 \<or> n = 205 \<or> n = 304)"

text \<open>
  \<open>NextResponse.json(data, init)\<close> builds a response with a JSON body through the
  \<open>Response\<close> constructor, with status 200 when \<open>init\<close> gives none. The
  constructor throws a \<open>RangeError\<close> for a status outside 200 to 599, and a
  \<open>TypeError\<close> for a body together with a null body status.
\<close>

definition NextResponse_json :: "'j json_body \<Rightarrow> nat option \<Rightarrow> js_error + 'j next_response" where
  "NextResponse_json b st =
     (let n = (case st of None \<Rightarrow> 200 | Some n \<Rightarrow> n)
      in if n < 200 \<or> 599 < n then Inl RangeError
         else if null_body_status n then Inl TypeError
         else Inr \<lparr>body = b, status = n\<rparr>)"

definition history_call :: "process_env \<Rightarrow> next_request \<Rightarrow> string \<Rightarrow> fetch_call" where
  "history_call env req sessionId =
     (let backendUrl = js_or (BACKEND_URL env)
                         (js_or (NEXT_PUBLIC_BACKEND_URL env) ''http://localhost:8000'');
          token = authorization req
      in \<lparr>call_url = backendUrl @ ''/sessions/'' @ sessionId @ ''/history'',
          call_headers = [(''Authorization'', js_or token []),
                          (''ngrok-skip-browser-warning'', ''true'')]\<rparr>)"

text \<open>
  The \<open>try\<close> block (lines 5 to 21): the calls of \<open>fetch\<close> it made, in order, and
  the response it returns or the error it throws. A rejection of \<open>fetch\<close> is a
  \<open>TypeError\<close>, a body that is not JSON a \<open>SyntaxError\<close>.
\<close>

definition GET_try :: "process_env \<Rightarrow> next_request \<Rightarrow> string \<Rightarrow> (fetch_call \<Rightarrow> 'j fetch_result)
    \<Rightarrow> fetch_call list \<times> (js_error + 'j next_response)" where
  "GET_try env req sessionId backend =
     (let c = history_call env req sessionId
      in case backend c of
           FetchThrows \<Rightarrow> ([c], Inl TypeError)
         | FetchResponse response \<Rightarrow>
             if \<not> resp_ok response
             then ([c], NextResponse_json (Detail ''Failed to fetch history'')
                          (Some (resp_status response)))
             else (case resp_json response of
                     None \<Rightarrow> ([c], Inl SyntaxError)
                   | Some data \<Rightarrow> ([c], NextResponse_json (Payload data) None)))"

text \<open>
  \<open>GET\<close>: the \<open>try\<close> block, and the \<open>catch\<close> branch (line 23) for whatever it
  throws. The result is the list of calls of \<open>fetch\<close> and the response returned to
  the client, or the error that leaves the function.
\<close>

definition GET :: "process_env \<Rightarrow> next_request \<Rightarrow> string \<Rightarrow> (fetch_call \<Rightarrow> 'j fetch_result)
    \<Rightarrow> fetch_call list \<times> (js_error + 'j next_response)" where
  "GET env req sessionId backend =
     (case GET_try env req sessionId backend of
        (calls, Inl e) \<Rightarrow>
          (calls, NextResponse_json (Detail ''Failed to fetch history'') (Some 500))
      | (calls, Inr r) \<Rightarrow> (calls, Inr r))"

section \<open>The document uploader\<close>

text \<open>
  \<^verbatim>\<open>src/unnamed/part_005\<close>, component \<open>DocumentUploader\<close>, function
  \<open>handleUpload\<close>.

  \<open>String.prototype.toLowerCase\<close> is modelled on the letters \<open>A\<close> to \<open>Z\<close>; every
  other character is left as it is (no character outside ASCII lower-cases to one of
  the four characters of \<open>.pdf\<close>, so the test below does not depend on them).
\<close>

definition toLowerCase_char :: "char \<Rightarrow> char" where
  "toLowerCase_char c =
     (case map_of (zip ''ABCDEFGHIJKLMNOPQRSTUVWXYZ'' ''abcdefghijklmnopqrstuvwxyz'') c of
        None \<Rightarrow> c
      | Some l \<Rightarrow> l)"

definition toLowerCase :: "string \<Rightarrow> string" where
  "toLowerCase s = map toLowerCase_char s"

definition endsWith :: "string \<Rightarrow> string \<Rightarrow> bool" where
  "endsWith s suf = (length suf \<le> length s \<and> drop (length s - length suf) s = suf)"

text \<open>A \<open>File\<close>: its name and its size in bytes.\<close>

record js_file =
  name :: string
  fsize :: nat

datatype document_type = Prescription | Discharge | LabReport

fun document_type_string :: "document_type \<Rightarrow> string" where
  "document_type_string Prescription = ''prescription''"
| "document_type_string Discharge = ''discharge''"
| "document_type_string LabReport = ''lab-report''"

fun docTypeLabel :: "document_type \<Rightarrow> string" where
  "docTypeLabel Prescription = ''Prescription''"
| "docTypeLabel Discharge = ''Discharge Summary''"
| "docTypeLabel LabReport = ''Lab Report''"

text \<open>
  The messages the component shows. \<open>FileTooLarge n\<close> stands for the message built
  from the size \<open>n\<close> of the refused file (the source formats \<open>n / 1024 / 1024\<close> with
  two decimals into it), \<open>ExtractedSuccessfully l\<close> for the success message built from
  the label \<open>l\<close>; every other message is the literal of the source.
\<close>

datatype ui_message = Msg string | FileTooLarge nat | ExtractedSuccessfully string

text \<open>
  The component's state, as far as \<open>handleUpload\<close> reads or writes it, with the list
  of uploaded documents, which it never writes. \<open>'d\<close> is the type of an uploaded
  document, \<open>'v\<close> the type of extracted data.
\<close>

record ('d, 'v) uploader_state =
  uploading :: bool
  documents :: "'d list"
  error :: "ui_message option"
  success :: "ui_message option"
  extractedData :: "'v option"
  recoveryPlan :: "'v option"
  documentType :: document_type

text \<open>
  The body of a JSON answer of the extraction endpoint, when it is not \<open>null\<close>:
  \<open>data\<close> and \<open>recovery_plan\<close> (\<open>None\<close> when absent or falsy) and
  \<open>detail\<close>.
\<close>

record 'v extract_json =
  json_data :: "'v option"
  json_recovery_plan :: "'v option"
  json_detail :: "string option"

record upload_call =
  endpoint :: string
  upload_headers :: "(string \<times> string) list"
  form_file :: js_file

text \<open>
  What \<open>handleUpload\<close> does to the outside, in order: it asks for a token, posts the
  form, calls the parent's \<open>onExtractComplete\<close> (with the data, the recovery plan
  and the document type) and resets the file input.
\<close>

datatype 'v upload_effect =
    GetValidToken
  | Fetch upload_call
  | OnExtractComplete 'v "'v option" document_type
  | ResetInput

datatype token_result = TokenThrows | TokenReturns "string option"

text \<open>
  The outside world: what \<open>getValidToken\<close> gives, what \<open>fetch\<close> gives for a call,
  whether the parent passed \<open>onExtractComplete\<close> and whether that callback throws.
  The body of a response is \<open>None\<close> when \<open>response.json()\<close> throws,
  \<open>Some None\<close> when it is \<open>null\<close> and \<open>Some (Some j)\<close> otherwise.
\<close>

record 'v upload_env =
  getValidToken :: token_result
  fetch :: "upload_call \<Rightarrow> 'v extract_json option fetch_result"
  onExtractComplete_given :: bool
  onExtractComplete_throws :: bool

text \<open>\<open>4.5 * 1024 * 1024\<close>, which is the integer 4718592.\<close>

definition maxSize :: nat where
  "maxSize = 45 * 1024 * 1024 div 10"

text \<open>
  The \<open>try\<close> block with its \<open>catch\<close>: the state and the effects after it, before
  \<open>finally\<close> runs. Reading \<open>result.data\<close> or \<open>errorData.detail\<close> of a body that
  is \<open>null\<close> throws, which the \<open>catch\<close> reports like a network error.
\<close>

definition upload_try :: "'v upload_env \<Rightarrow> ('d, 'v) uploader_state \<Rightarrow> js_file
    \<Rightarrow> ('d, 'v) uploader_state \<times> 'v upload_effect list" where
  "upload_try env st file =
     (let caught = st\<lparr>error := Some (Msg ''Network error during upload'')\<rparr> in
      case getValidToken env of
        TokenThrows \<Rightarrow> (caught, [GetValidToken])
      | TokenReturns token \<Rightarrow>
          if falsy token
          then (st\<lparr>error := Some (Msg ''Not authenticated. Please log in again.''),
                    uploading := False\<rparr>, [GetValidToken])
          else
            let c = \<lparr>endpoint = ''/api/extract/'' @ document_type_string (documentType st),
                     upload_headers = [(''Authorization'', ''Bearer '' @ js_template token)],
                     form_file = file\<rparr>
            in (case fetch env c of
                  FetchThrows \<Rightarrow> (caught, [GetValidToken, Fetch c])
                | FetchResponse response \<Rightarrow>
                    if resp_ok response
                    then (case resp_json response of
                            None \<Rightarrow> (caught, [GetValidToken, Fetch c])
                          | Some None \<Rightarrow> (caught, [GetValidToken, Fetch c])
                          | Some (Some result) \<Rightarrow>
                              (case json_data result of
                                 None \<Rightarrow>
                                   (st\<lparr>error := Some (Msg
                                      ''No data could be extracted from the PDF. Please ensure it contains medical information.'')\<rparr>,
                                    [GetValidToken, Fetch c])
                               | Some d \<Rightarrow>
                                   (let st1 = st\<lparr>extractedData := Some d\<rparr>;
                                        st2 = (case json_recovery_plan result of
                                                 None \<Rightarrow> st1
                                               | Some p \<Rightarrow> st1\<lparr>recoveryPlan := Some p\<rparr>);
                                        st3 = st2\<lparr>success := Some (ExtractedSuccessfully
                                                 (docTypeLabel (documentType st)))\<rparr>
                                    in if onExtractComplete_given env
                                       then (if onExtractComplete_throws env
                                             then st3\<lparr>error := Some (Msg ''Network error during upload'')\<rparr>
                                             else st3,
                                             [GetValidToken, Fetch c,
                                              OnExtractComplete d (json_recovery_plan result)
                                                (documentType st)])
                                       else (st3, [GetValidToken, Fetch c]))))
                    else
                      (case (case resp_json response of
                               None \<Rightarrow> Some \<lparr>json_data = None, json_recovery_plan = None,
                                              json_detail = Some ''Unknown error''\<rparr>
                             | Some j \<Rightarrow> j) of
                         None \<Rightarrow> (caught, [GetValidToken, Fetch c])
                       | Some errorData \<Rightarrow>
                           (st\<lparr>error := Some (Msg (js_or (json_detail errorData)
                                                  ''Extraction failed. Please try again.''))\<rparr>,
                            [GetValidToken, Fetch c]))))"

text \<open>
  \<open>handleUpload\<close> on the first file of the change event (\<open>None\<close> when no file is
  selected): the state after it and the effects it had.
\<close>

definition handleUpload :: "'v upload_env \<Rightarrow> ('d, 'v) uploader_state \<Rightarrow> js_file option
    \<Rightarrow> ('d, 'v) uploader_state \<times> 'v upload_effect list" where
  "handleUpload env st e_file =
     (case e_file of
        None \<Rightarrow> (st, [])
      | Some file \<Rightarrow>
          if \<not> endsWith (toLowerCase (name file)) ''.pdf''
          then (st\<lparr>error := Some (Msg ''Only PDF files are supported'')\<rparr>, [])
          else if fsize file > maxSize
          then (st\<lparr>error := Some (FileTooLarge (fsize file))\<rparr>, [])
          else
            (let st1 = st\<lparr>uploading := True, error := None, success := None\<rparr>;
                 (st2, effects) = upload_try env st1 file
             in (st2\<lparr>uploading := False\<rparr>, effects @ [ResetInput])))"

text \<open>
  A concrete component state and outside world for the examples: no document yet,
  document type \<open>prescription\<close>, a token at hand and an endpoint that answers with
  extracted data.
\<close>

definition uploader_state_example :: "(string, string) uploader_state" where
  "uploader_state_example =
     \<lparr>uploading = False, documents = [], error = None, success = None,
      extractedData = None, recoveryPlan = None, documentType = Prescription\<rparr>"

definition upload_env_example :: "string upload_env" where
  "upload_env_example =
     \<lparr>getValidToken = TokenReturns (Some ''tok''),
      fetch = (\<lambda>c. FetchResponse \<lparr>resp_ok = True, resp_status = 200,
                 resp_json = Some (Some \<lparr>json_data = Some ''rx'', json_recovery_plan = None,
                                          json_detail = None\<rparr>)\<rparr>),
      onExtractComplete_given = False,
      onExtractComplete_throws = False\<rparr>"

section \<open>The discharge page\<close>

text \<open>
  \<^verbatim>\<open>src/unnamed/part_004\<close>, component \<open>DischargePage\<close>, function
  \<open>handleSubmit\<close>. A \<open>FormData\<close> is the list of its fields in the order of the
  \<open>append\<close> calls; a field holds a file or a string.
\<close>

datatype form_value = FormFile js_file | FormText string

datatype upload_mode = ModeFile | ModeImage

text \<open>
  What \<open>fetch\<close> gives for a submission: it rejects with an error of some message, or
  resolves to a response with its \<open>ok\<close> flag and the outcome of \<open>response.json()\<close>,
  which throws an error of some message or gives a value.
\<close>

datatype 'j json_outcome = JsonThrows string | JsonValue 'j

record 'j submit_response =
  submit_ok :: bool
  submit_json :: "'j json_outcome"

datatype 'j submit_outcome = SubmitRejects string | SubmitResolves "'j submit_response"

record submit_call =
  submit_url :: string
  submit_method :: string
  submit_headers :: "(string \<times> string) list"
  submit_body :: "(string \<times> form_value) list"

text \<open>
  The result shown by the page: the answer of the simplify endpoint as it came
  (\<open>setResult(data)\<close>), or the prescription formatted by lines 152 to 166.
\<close>

datatype ('j, 'r) page_result = Simplified 'j | FormattedPrescription 'r

text \<open>
  The page's state, as far as \<open>handleSubmit\<close> reads or writes it. The field
  \<open>selected_file\<close> is the source's \<open>file\<close>, \<open>text_value\<close> its \<open>text\<close> and
  \<open>page_error\<close> its \<open>error\<close>.
\<close>

record ('j, 'r) discharge_state =
  selected_file :: "js_file option"
  text_value :: string
  loading :: bool
  result :: "('j, 'r) page_result option"
  page_error :: "string option"
  uploadMode :: "upload_mode option"

text \<open>
  The outside world of \<open>handleSubmit\<close>: the environment variable read into the image
  endpoint's address, the token in \<open>localStorage\<close>, \<open>fetch\<close>, and the formatting of
  an extracted prescription (lines 152 to 166), which builds the result or throws a
  \<open>TypeError\<close> of some message when the answer has no \<open>data\<close> object.
\<close>

record ('j, 'r) submit_env =
  env_NEXT_PUBLIC_BACKEND_URL :: "string option"
  localStorage_token :: "string option"
  submit_fetch :: "submit_call \<Rightarrow> 'j submit_outcome"
  formatPrescription :: "'j \<Rightarrow> string + 'r"

text \<open>Inside a template literal \<open>undefined\<close> reads \<open>undefined\<close>.\<close>

definition js_template_undefined :: "string option \<Rightarrow> string" where
  "js_template_undefined t = (case t of None \<Rightarrow> ''undefined'' | Some s \<Rightarrow> s)"

text \<open>
  The image branch (lines 132 to 175) for the selected file \<open>f\<close>: its \<open>try\<close>,
  \<open>catch\<close> and \<open>finally\<close>.
\<close>

definition submit_image :: "('j, 'r) submit_env \<Rightarrow> ('j, 'r) discharge_state \<Rightarrow> js_file
    \<Rightarrow> ('j, 'r) discharge_state \<times> submit_call list" where
  "submit_image env st f =
     (let formData = [(''file'', FormFile f)];
          token = localStorage_token env;
          c = \<lparr>submit_url = js_template_undefined (env_NEXT_PUBLIC_BACKEND_URL env)
                              @ ''/extract/prescription'',
               submit_method = ''POST'',
               submit_headers = [(''Authorization'', ''Bearer '' @ js_template token)],
               submit_body = formData\<rparr>;
          st' = (case submit_fetch env c of
                   SubmitRejects msg \<Rightarrow> st\<lparr>page_error := Some msg\<rparr>
                 | SubmitResolves response \<Rightarrow>
                     if \<not> submit_ok response
                     then st\<lparr>page_error := Some ''Failed to extract prescription from image.''\<rparr>
                     else (case submit_json response of
                             JsonThrows msg \<Rightarrow> st\<lparr>page_error := Some msg\<rparr>
                           | JsonValue data \<Rightarrow>
                               (case formatPrescription env data of
                                  Inl msg \<Rightarrow> st\<lparr>page_error := Some msg\<rparr>
                                | Inr formattedResult \<Rightarrow>
                                    st\<lparr>result := Some (FormattedPrescription formattedResult)\<rparr>)))
      in (st'\<lparr>loading := False\<rparr>, [c]))"

text \<open>
  The original branch (lines 177 to 204): the form holds the file when there is one
  and the text otherwise.
\<close>

definition submit_simplify :: "('j, 'r) submit_env \<Rightarrow> ('j, 'r) discharge_state
    \<Rightarrow> ('j, 'r) discharge_state \<times> submit_call list" where
  "submit_simplify env st =
     (let formData = (case selected_file st of
                        Some f \<Rightarrow> [(''file'', FormFile f)]
                      | None \<Rightarrow> [(''text'', FormText (text_value st))]);
          token = localStorage_token env;
          c = \<lparr>submit_url = ''/api/discharge/simplify'',
               submit_method = ''POST'',
               submit_headers = [(''Authorization'', ''Bearer '' @ js_template token)],
               submit_body = formData\<rparr>;
          st' = (case submit_fetch env c of
                   SubmitRejects msg \<Rightarrow> st\<lparr>page_error := Some msg\<rparr>
                 | SubmitResolves response \<Rightarrow>
                     if \<not> submit_ok response
                     then st\<lparr>page_error := Some ''Failed to process discharge instructions.''\<rparr>
                     else (case submit_json response of
                             JsonThrows msg \<Rightarrow> st\<lparr>page_error := Some msg\<rparr>
                           | JsonValue data \<Rightarrow> st\<lparr>result := Some (Simplified data)\<rparr>))
      in (st'\<lparr>loading := False\<rparr>, [c]))"

text \<open>\<open>handleSubmit\<close>: the state after it and the requests it made, in order.\<close>

definition handleSubmit :: "('j, 'r) submit_env \<Rightarrow> ('j, 'r) discharge_state
    \<Rightarrow> ('j, 'r) discharge_state \<times> submit_call list" where
  "handleSubmit env st =
     (if selected_file st = None \<and> text_value st = []
      then (st\<lparr>page_error := Some ''Please provide a file, image, or text.''\<rparr>, [])
      else
        (let st1 = st\<lparr>loading := True, page_error := None, result := None\<rparr>
         in case selected_file st of
              Some f \<Rightarrow>
                if uploadMode st = Some ModeImage
                then submit_image env st1 f
                else submit_simplify env st1
            | None \<Rightarrow> submit_simplify env st1))"

text \<open>A concrete outside world for the examples: every submission is answered.\<close>

definition submit_env_example :: "(string, string) submit_env" where
  "submit_env_example =
     \<lparr>env_NEXT_PUBLIC_BACKEND_URL = Some ''http://backend'',
      localStorage_token = Some ''tok'',
      submit_fetch = (\<lambda>c. SubmitResolves \<lparr>submit_ok = True, submit_json = JsonValue ''plan''\<rparr>),
      formatPrescription = (\<lambda>d. Inr d)\<rparr>"

section \<open>The conversation context engine\<close>

text \<open>
  The repository's backend, which stores the conversation and assembles the prompt, is
  not among the source files; \<^verbatim>\<open>src/unnamed/part_000\<close> documents its schemas and
  its window of ten messages. The definitions of this section follow the
  specification's sections 3 and 4.
\<close>

text \<open>Modelled from the spec: the \<open>role\<close> of a message (section 3).\<close>

datatype role = User | Assistant | System

text \<open>
  Modelled from the spec: the \<open>Message\<close> of section 3 (the backend's
  \<open>MessageMongo\<close> is absent). \<open>m_id\<close>, \<open>m_session_id\<close> and \<open>m_user_id\<close> are the
  spec's \<open>id\<close>, \<open>session_id\<close> and \<open>user_id\<close>.
\<close>

record message =
  m_id :: string
  m_session_id :: string
  m_user_id :: string
  role :: role
  content :: string
  created_at :: nat
  sequence :: nat
  intent :: "string option"
  token_count :: "nat option"
  response_time_ms :: "nat option"
  model_used :: "string option"
  citations :: "string list"
  audio_ref :: "string option"
  metadata :: "(string \<times> string) list"

text \<open>Modelled from the spec: the \<open>status\<close> of a session (section 3).\<close>

datatype session_status = Active | Archived

text \<open>
  Modelled from the spec: the \<open>Session\<close> of section 3 (the backend's
  \<open>SessionMongo\<close> is absent). \<open>s_id\<close> and \<open>s_user_id\<close> are the spec's \<open>id\<close> and
  \<open>user_id\<close>; \<open>summary_through_sequence\<close> is 0 while no summary is stored, below
  every sequence number of a message.
\<close>

record session =
  s_id :: string
  s_user_id :: string
  session_status :: session_status
  message_count :: nat
  primary_language :: string
  topics :: "string list"
  last_intent :: "string option"
  context_summary :: "string option"
  summary_through_sequence :: nat
  updated_at :: nat

text \<open>Modelled from the spec: the error taxonomy of section 7.\<close>

datatype core_error = NotFound | Conflict | UpstreamError | InvalidRequest

text \<open>
  Modelled from the spec: the persisted state, which is the Session Registry (one
  record per session id) and the Message Log (the messages of all sessions, in the
  order they were appended). The storage layer is absent.
\<close>

record store =
  sessions :: "string \<rightharpoonup> session"
  log :: "message list"

subsection \<open>The monotonic merge of a summary\<close>

text \<open>
  Modelled from the spec: \<open>applySummary(session_id, summary_text, through_sequence)\<close>
  of sections 4.2 and 4.4, absent from the source files. It updates
  \<open>context_summary\<close> and \<open>summary_through_sequence\<close> only if the supplied
  \<open>through_sequence\<close> is strictly greater than the stored value, and is a silent
  no-op otherwise; an unknown session is \<open>NotFound\<close>.
\<close>

definition applySummary :: "store \<Rightarrow> string \<Rightarrow> string \<Rightarrow> nat \<Rightarrow> core_error + store" where
  "applySummary st session_id summary_text through_sequence =
     (case sessions st session_id of
        None \<Rightarrow> Inl NotFound
      | Some s \<Rightarrow>
          if through_sequence > summary_through_sequence s
          then Inr (st\<lparr>sessions := (sessions st)(session_id \<mapsto>
                      s\<lparr>context_summary := Some summary_text,
                        summary_through_sequence := through_sequence\<rparr>)\<rparr>)
          else Inr st)"

text \<open>
  Modelled from the spec: a sequence of \<open>applySummary\<close> calls in their order of
  arrival, each given as session id, summary text and \<open>through_sequence\<close>. A call
  that fails leaves the store as it was.
\<close>

fun applySummaries :: "store \<Rightarrow> (string \<times> string \<times> nat) list \<Rightarrow> store" where
  "applySummaries st [] = st"
| "applySummaries st ((session_id, summary_text, through_sequence) # calls) =
     applySummaries
       (case applySummary st session_id summary_text through_sequence of
          Inl e \<Rightarrow> st
        | Inr st' \<Rightarrow> st')
       calls"

subsection \<open>The window, the summary state and the context package\<close>

text \<open>
  Modelled from the spec: \<open>readLastN(session_id, n)\<close> of the Message Log (section
  4.1), absent from the source files: the last \<open>n\<close> messages of the session, oldest
  first.
\<close>

definition readLastN :: "message list \<Rightarrow> string \<Rightarrow> nat \<Rightarrow> message list" where
  "readLastN lg session_id n =
     (let ms = filter (\<lambda>m. m_session_id m = session_id) lg
      in drop (length ms - n) ms)"

text \<open>Modelled from the spec: the three states of a session's summary (section 4.4).\<close>

datatype summary_state = NoSummaryNeeded | SummaryStale | SummaryFresh

text \<open>
  Modelled from the spec: the state machine of section 4.4, read off the session
  record. \<open>NoSummaryNeeded\<close> while \<open>message_count\<close> is at most 10; \<open>SummaryStale\<close>
  when it is above 10 and the summary is absent or covers less than
  \<open>message_count - 10\<close>; \<open>SummaryFresh\<close> otherwise.
\<close>

definition summary_state_of :: "session \<Rightarrow> summary_state" where
  "summary_state_of s =
     (if message_count s \<le> 10 then NoSummaryNeeded
      else if context_summary s = None \<or> summary_through_sequence s < message_count s - 10
      then SummaryStale
      else SummaryFresh)"

text \<open>
  Modelled from the spec: the Context Package of section 3, the ordered list
  [system preamble, profile block, summary block (if present), verbatim window turns,
  current query], kept by its parts.
\<close>

record context_package =
  system_preamble :: string
  profile_block :: string
  summary_block :: "string option"
  window_turns :: "(role \<times> string) list"
  current_query :: string

text \<open>
  Modelled from the spec: the package as the ordered list of role and content pairs.
  The spec fixes the order and that the query is the final user turn; the preamble,
  the profile and the summary are taken as system entries.
\<close>

definition package_pairs :: "context_package \<Rightarrow> (role \<times> string) list" where
  "package_pairs p =
     [(System, system_preamble p), (System, profile_block p)]
     @ (case summary_block p of None \<Rightarrow> [] | Some t \<Rightarrow> [(System, t)])
     @ window_turns p
     @ [(User, current_query p)]"

text \<open>
  Modelled from the spec: the configuration of the Context Assembler (section 4.5):
  the Token Estimator \<open>estimate\<close> of section 4.3, which is absent and taken as a
  parameter, the configurable ceiling and the text of the system preamble.
\<close>

record assembler_config =
  estimate :: "string \<Rightarrow> nat"
  ceiling :: nat
  preamble_text :: string

text \<open>
  Modelled from the spec: the total estimated tokens of a package (section 4.5), the
  sum of the estimates of its entries' contents.
\<close>

definition package_tokens :: "assembler_config \<Rightarrow> context_package \<Rightarrow> nat" where
  "package_tokens cfg p = sum_list (map (\<lambda>(r, c). estimate cfg c) (package_pairs p))"

text \<open>
  Modelled from the spec: the assembly of section 4.5 before the check against the
  ceiling: the session's summary is included in the states \<open>SummaryFresh\<close> and
  \<open>SummaryStale\<close>, the window is the last 10 messages, the profile block is included
  as supplied and the query comes last. An unknown session is \<open>NotFound\<close>.
\<close>

definition assemble :: "assembler_config \<Rightarrow> store \<Rightarrow> string \<Rightarrow> string \<Rightarrow> string
    \<Rightarrow> core_error + context_package" where
  "assemble cfg st session_id profile query =
     (case sessions st session_id of
        None \<Rightarrow> Inl NotFound
      | Some s \<Rightarrow>
          Inr \<lparr>system_preamble = preamble_text cfg,
               profile_block = profile,
               summary_block = (if summary_state_of s = NoSummaryNeeded then None
                                else context_summary s),
               window_turns = map (\<lambda>m. (role m, content m)) (readLastN (log st) session_id 10),
               current_query = query\<rparr>)"

text \<open>
  Modelled from the spec: the trimming of section 4.5. While the estimated total
  exceeds the ceiling and a verbatim turn is left, the oldest verbatim turn is
  dropped; the summary and the query are never dropped.
\<close>

function trim :: "assembler_config \<Rightarrow> context_package \<Rightarrow> context_package" where
  "trim cfg p =
     (if package_tokens cfg p > ceiling cfg \<and> window_turns p \<noteq> []
      then trim cfg (p\<lparr>window_turns := tl (window_turns p)\<rparr>)
      else p)"
  by pat_completeness auto
termination
  by (relation "measure (\<lambda>(cfg, p). length (window_turns p))") auto

text \<open>
  Modelled from the spec: \<open>buildContext(session_id, profile_block, current_query)\<close>
  of section 4.5, absent from the source files: the assembled package, trimmed to the
  ceiling.
\<close>

definition buildContext :: "assembler_config \<Rightarrow> store \<Rightarrow> string \<Rightarrow> string \<Rightarrow> string
    \<Rightarrow> core_error + context_package" where
  "buildContext cfg st session_id profile query =
     (case assemble cfg st session_id profile query of
        Inl e \<Rightarrow> Inl e
      | Inr p \<Rightarrow> Inr (trim cfg p))"

subsection \<open>A concrete store for the examples\<close>

definition message_example :: "string \<Rightarrow> nat \<Rightarrow> role \<Rightarrow> string \<Rightarrow> message" where
  "message_example session_id n r c =
     \<lparr>m_id = c, m_session_id = session_id, m_user_id = ''u1'', role = r, content = c,
      created_at = n, sequence = n, intent = None, token_count = None,
      response_time_ms = None, model_used = None, citations = [], audio_ref = None,
      metadata = []\<rparr>"

text \<open>
  Session \<open>s1\<close> has 12 messages and a summary through sequence 2; one message of
  another session lies between them in the log.
\<close>

definition session_example :: session where
  "session_example =
     \<lparr>s_id = ''s1'', s_user_id = ''u1'', session_status = Active, message_count = 12,
      primary_language = ''English'', topics = [], last_intent = None,
      context_summary = Some ''old'', summary_through_sequence = 2, updated_at = 12\<rparr>"

definition store_example :: store where
  "store_example =
     \<lparr>sessions = [''s1'' \<mapsto> session_example],
      log = [message_example ''s1'' 1 User ''m01'', message_example ''s1'' 2 Assistant ''m02'',
             message_example ''s2'' 1 User ''x01'',
             message_example ''s1'' 3 User ''m03'', message_example ''s1'' 4 Assistant ''m04'',
             message_example ''s1'' 5 User ''m05'', message_example ''s1'' 6 Assistant ''m06'',
             message_example ''s1'' 7 User ''m07'', message_example ''s1'' 8 Assistant ''m08'',
             message_example ''s1'' 9 User ''m09'', message_example ''s1'' 10 Assistant ''m10'',
             message_example ''s1'' 11 User ''m11'', message_example ''s1'' 12 Assistant ''m12'']\<rparr>"

text \<open>An estimator that counts characters, with a ceiling of 20 tokens.\<close>

definition assembler_config_example :: assembler_config where
  "assembler_config_example = \<lparr>estimate = length, ceiling = 20, preamble_text = ''sys''\<rparr>"

section \<open>Properties of the session history route\<close>

lemma js_or_empty: "js_or a [] = (case a of None \<Rightarrow> [] | Some s \<Rightarrow> s)"
  by (simp add: js_or_def split: option.splits)

lemma NextResponse_json_500:
  "NextResponse_json b (Some 500) = Inr \<lparr>body = b, status = 500\<rparr>"
  by (simp add: NextResponse_json_def null_body_status_def)

lemma NextResponse_json_default:
  "NextResponse_json b None = Inr \<lparr>body = b, status = 200\<rparr>"
  by (simp add: NextResponse_json_def null_body_status_def)

lemma NextResponse_json_status:
  "NextResponse_json b (Some n)
     = (if 200 \<le> n \<and> n \<le> 599 \<and> n \<noteq> 204 \<and> n \<noteq> 205 \<and> n \<noteq> 304
        then Inr \<lparr>body = b, status = n\<rparr>
        else if n < 200 \<or> 599 < n then Inl RangeError else Inl TypeError)"
  by (auto simp: NextResponse_json_def null_body_status_def)

lemma GET_try_calls:
  "fst (GET_try env req sessionId backend) = [history_call env req sessionId]"
  by (simp add: GET_try_def Let_def split: fetch_result.splits option.splits)

lemma GET_calls: "fst (GET env req sessionId backend) = [history_call env req sessionId]"
  using GET_try_calls [of env req sessionId backend]
  by (auto simp: GET_def split: prod.splits sum.splits)

lemma GET_answer:
  "snd (GET env req sessionId backend)
     = Inr (case backend (history_call env req sessionId) of
              FetchThrows \<Rightarrow> \<lparr>body = Detail ''Failed to fetch history'', status = 500\<rparr>
            | FetchResponse response \<Rightarrow>
                if \<not> resp_ok response
                then \<lparr>body = Detail ''Failed to fetch history'',
                      status = (if 200 \<le> resp_status response \<and> resp_status response \<le> 599
                                   \<and> resp_status response \<noteq> 204
                                   \<and> resp_status response \<noteq> 205
                                   \<and> resp_status response \<noteq> 304
                                then resp_status response else 500)\<rparr>
                else (case resp_json response of
                        None \<Rightarrow> \<lparr>body = Detail ''Failed to fetch history'', status = 500\<rparr>
                      | Some data \<Rightarrow> \<lparr>body = Payload data, status = 200\<rparr>))"
proof (cases "backend (history_call env req sessionId)")
  case FetchThrows
  then show ?thesis
    by (simp add: GET_def GET_try_def Let_def NextResponse_json_500)
next
  case (FetchResponse response)
  show ?thesis
  proof (cases "resp_ok response")
    case False
    with FetchResponse show ?thesis
      by (simp add: GET_def GET_try_def Let_def NextResponse_json_500 NextResponse_json_status)
  next
    case True
    with FetchResponse show ?thesis
      by (cases "resp_json response")
        (simp_all add: GET_def GET_try_def Let_def NextResponse_json_500
           NextResponse_json_default)
  qed
qed

text \<open>
  C8, as amended. For every incoming request the route calls \<open>fetch\<close> exactly once,
  whether or not the \<open>authorization\<close> header is present; the call's
  \<open>Authorization\<close> header is the incoming header value, or the empty string when
  the header is absent. The route always answers, and its answer is decided by what
  the backend gives for that call alone:
  \<^item> when the backend's response is not \<open>ok\<close> and its status can be given to a
    response with a body (it lies in 200 to 599 and is none of 204, 205 and 304), the
    answer has the backend's status and the body
    \<open>{"detail": "Failed to fetch history"}\<close>;
  \<^item> when the backend's response is not \<open>ok\<close> and its status is any other, building
    that answer throws and the route answers 500 with the same body;
  \<^item> when \<open>fetch\<close> rejects, or the body of an \<open>ok\<close> response is not JSON, the route
    answers 500 with the same body;
  \<^item> otherwise it answers 200 with the backend's JSON.
\<close>

theorem GET_forwards_and_maps_status:
  "(let c = \<lparr>call_url = js_or (BACKEND_URL env)
                          (js_or (NEXT_PUBLIC_BACKEND_URL env) ''http://localhost:8000'')
                        @ ''/sessions/'' @ sessionId @ ''/history'',
             call_headers = [(''Authorization'',
                                (case authorization req of None \<Rightarrow> [] | Some t \<Rightarrow> t)),
                             (''ngrok-skip-browser-warning'', ''true'')]\<rparr>
    in fst (GET env req sessionId backend) = [c]
     \<and> snd (GET env req sessionId backend)
         = Inr (case backend c of
                  FetchThrows \<Rightarrow> \<lparr>body = Detail ''Failed to fetch history'', status = 500\<rparr>
                | FetchResponse response \<Rightarrow>
                    if \<not> resp_ok response
                    then \<lparr>body = Detail ''Failed to fetch history'',
                          status = (if 200 \<le> resp_status response
                                       \<and> resp_status response \<le> 599
                                       \<and> resp_status response \<noteq> 204
                                       \<and> resp_status response \<noteq> 205
                                       \<and> resp_status response \<noteq> 304
                                    then resp_status response else 500)\<rparr>
                    else (case resp_json response of
                            None \<Rightarrow> \<lparr>body = Detail ''Failed to fetch history'', status = 500\<rparr>
                          | Some data \<Rightarrow> \<lparr>body = Payload data, status = 200\<rparr>)))"
proof -
  have c: "history_call env req sessionId
             = \<lparr>call_url = js_or (BACKEND_URL env)
                              (js_or (NEXT_PUBLIC_BACKEND_URL env) ''http://localhost:8000'')
                            @ ''/sessions/'' @ sessionId @ ''/history'',
                 call_headers = [(''Authorization'',
                                    (case authorization req of None \<Rightarrow> [] | Some t \<Rightarrow> t)),
                                 (''ngrok-skip-browser-warning'', ''true'')]\<rparr>"
    by (simp add: history_call_def Let_def js_or_empty)
  show ?thesis
    unfolding Let_def
    using GET_calls [of env req sessionId backend] GET_answer [of env req sessionId backend]
    unfolding c by simp
qed

text \<open>
  Witness: with no environment variable and no \<open>authorization\<close> header, a backend
  that answers 404 is called at the default address with an empty \<open>Authorization\<close>
  header and its 404 is passed on; with a header, the header is forwarded and the JSON
  of an \<open>ok\<close> response is answered with status 200.
\<close>

theorem GET_forwards_and_maps_status_witness:
  "GET \<lparr>BACKEND_URL = None, NEXT_PUBLIC_BACKEND_URL = None\<rparr> \<lparr>authorization = None\<rparr> ''s1''
       (\<lambda>c. FetchResponse \<lparr>resp_ok = False, resp_status = 404, resp_json = (None :: string option)\<rparr>)
     = ([\<lparr>call_url = ''http://localhost:8000/sessions/s1/history'',
          call_headers = [(''Authorization'', []), (''ngrok-skip-browser-warning'', ''true'')]\<rparr>],
        Inr \<lparr>body = Detail ''Failed to fetch history'', status = 404\<rparr>)
   \<and> GET \<lparr>BACKEND_URL = Some ''http://api'', NEXT_PUBLIC_BACKEND_URL = None\<rparr>
       \<lparr>authorization = Some ''Bearer t''\<rparr> ''s1''
       (\<lambda>c. FetchResponse \<lparr>resp_ok = True, resp_status = 200, resp_json = Some ''history''\<rparr>)
     = ([\<lparr>call_url = ''http://api/sessions/s1/history'',
          call_headers = [(''Authorization'', ''Bearer t''),
                          (''ngrok-skip-browser-warning'', ''true'')]\<rparr>],
        Inr \<lparr>body = Payload ''history'', status = 200\<rparr>)"
  using GET_forwards_and_maps_status
    [where env = "\<lparr>BACKEND_URL = None, NEXT_PUBLIC_BACKEND_URL = None\<rparr>"
       and sessionId = "''s1''" and req = "\<lparr>authorization = None\<rparr>"
       and backend = "\<lambda>c. FetchResponse \<lparr>resp_ok = False, resp_status = 404,
                                           resp_json = (None :: string option)\<rparr>"]
    GET_forwards_and_maps_status
    [where env = "\<lparr>BACKEND_URL = Some ''http://api'', NEXT_PUBLIC_BACKEND_URL = None\<rparr>"
       and sessionId = "''s1''" and req = "\<lparr>authorization = Some ''Bearer t''\<rparr>"
       and backend = "\<lambda>c. FetchResponse \<lparr>resp_ok = True, resp_status = 200,
                                           resp_json = Some ''history''\<rparr>"]
  by (simp add: js_or_def prod_eq_iff)

text \<open>
  Counterexample to C8 as first stated (a response that is not \<open>ok\<close> is answered
  with the backend's status): a backend that answers 304. A response with a body
  cannot have status 304, so line 17 throws inside the \<open>try\<close> and the \<open>catch\<close>
  answers 500.
\<close>

theorem GET_backend_304_counterexample:
  "snd (GET \<lparr>BACKEND_URL = None, NEXT_PUBLIC_BACKEND_URL = None\<rparr> \<lparr>authorization = None\<rparr> ''s1''
          (\<lambda>c. FetchResponse \<lparr>resp_ok = False, resp_status = 304, resp_json = (None :: string option)\<rparr>))
     = Inr \<lparr>body = Detail ''Failed to fetch history'', status = 500\<rparr>
   \<and> snd (GET \<lparr>BACKEND_URL = None, NEXT_PUBLIC_BACKEND_URL = None\<rparr> \<lparr>authorization = None\<rparr> ''s1''
          (\<lambda>c. FetchResponse \<lparr>resp_ok = False, resp_status = 304, resp_json = (None :: string option)\<rparr>))
     \<noteq> Inr \<lparr>body = Detail ''Failed to fetch history'', status = 304\<rparr>"
  by (simp add: GET_def GET_try_def Let_def NextResponse_json_def null_body_status_def)

section \<open>Properties of the document uploader\<close>

lemma maxSize_value: "maxSize = 4718592"
  by (simp add: maxSize_def)

lemma endsWith_iff_append: "endsWith s suf \<longleftrightarrow> (\<exists>pre. s = pre @ suf)"
proof
  assume "endsWith s suf"
  then have "s = take (length s - length suf) s @ suf"
    by (metis append_take_drop_id endsWith_def)
  then show "\<exists>pre. s = pre @ suf" ..
next
  assume "\<exists>pre. s = pre @ suf"
  then show "endsWith s suf"
    by (auto simp: endsWith_def)
qed

lemma toLowerCase_char_dot: "toLowerCase_char c = CHR ''.'' \<longleftrightarrow> c = CHR ''.''"
  by (auto simp add: toLowerCase_char_def split: if_splits)

lemma toLowerCase_char_p: "toLowerCase_char c = CHR ''p'' \<longleftrightarrow> c = CHR ''p'' \<or> c = CHR ''P''"
  by (auto simp add: toLowerCase_char_def split: if_splits)

lemma toLowerCase_char_d: "toLowerCase_char c = CHR ''d'' \<longleftrightarrow> c = CHR ''d'' \<or> c = CHR ''D''"
  by (auto simp add: toLowerCase_char_def split: if_splits)

lemma toLowerCase_char_f: "toLowerCase_char c = CHR ''f'' \<longleftrightarrow> c = CHR ''f'' \<or> c = CHR ''F''"
  by (auto simp add: toLowerCase_char_def split: if_splits)

text \<open>
  The test of \<open>handleUpload\<close> accepts exactly the names that end in a dot followed by
  \<open>p\<close>, \<open>d\<close> and \<open>f\<close>, each in either case.
\<close>

lemma endsWith_pdf_case_insensitive:
  "endsWith (toLowerCase n) ''.pdf'' \<longleftrightarrow>
     (\<exists>pre a b c. n = pre @ [CHR ''.'', a, b, c]
        \<and> (a = CHR ''p'' \<or> a = CHR ''P'')
        \<and> (b = CHR ''d'' \<or> b = CHR ''D'')
        \<and> (c = CHR ''f'' \<or> c = CHR ''F''))"
proof -
  have "endsWith (toLowerCase n) ''.pdf'' \<longleftrightarrow>
          (\<exists>pre x a b c. n = pre @ [x, a, b, c] \<and> toLowerCase_char x = CHR ''.''
             \<and> toLowerCase_char a = CHR ''p'' \<and> toLowerCase_char b = CHR ''d''
             \<and> toLowerCase_char c = CHR ''f'')"
  proof
    assume "endsWith (toLowerCase n) ''.pdf''"
    then show "\<exists>pre x a b c. n = pre @ [x, a, b, c] \<and> toLowerCase_char x = CHR ''.''
             \<and> toLowerCase_char a = CHR ''p'' \<and> toLowerCase_char b = CHR ''d''
             \<and> toLowerCase_char c = CHR ''f''"
      unfolding endsWith_iff_append toLowerCase_def
      by (auto simp: map_eq_append_conv map_eq_Cons_conv)
  next
    assume "\<exists>pre x a b c. n = pre @ [x, a, b, c] \<and> toLowerCase_char x = CHR ''.''
             \<and> toLowerCase_char a = CHR ''p'' \<and> toLowerCase_char b = CHR ''d''
             \<and> toLowerCase_char c = CHR ''f''"
    then obtain pre x a b c where "n = pre @ [x, a, b, c]"
      and "map toLowerCase_char [x, a, b, c] = ''.pdf''"
      by auto
    then have "toLowerCase n = map toLowerCase_char pre @ ''.pdf''"
      by (simp add: toLowerCase_def)
    then show "endsWith (toLowerCase n) ''.pdf''"
      unfolding endsWith_iff_append by blast
  qed
  then show ?thesis
    by (simp add: toLowerCase_char_dot toLowerCase_char_p toLowerCase_char_d
        toLowerCase_char_f)
qed

text \<open>A file that passes both tests makes \<open>handleUpload\<close> ask for a token first.\<close>

lemma handleUpload_accepted_asks_token:
  assumes "endsWith (toLowerCase (name file)) ''.pdf''" and "fsize file \<le> maxSize"
  shows "\<exists>rest. snd (handleUpload env st (Some file)) = GetValidToken # rest"
  using assms
  by (auto simp: handleUpload_def upload_try_def Let_def
      split: token_result.splits fetch_result.splits option.splits prod.splits)

text \<open>
  C9. For every selected file whose name does not end in \<open>.pdf\<close> (in any case) or
  whose size exceeds \<open>4.5 * 1024 * 1024 = 4718592\<close> bytes, \<open>handleUpload\<close> has no
  effect on the outside (no token is asked for, no endpoint is contacted): it only
  sets the error message, and the list of uploaded documents is unchanged.
\<close>

theorem handleUpload_rejects_before_any_request:
  assumes "\<not> endsWith (toLowerCase (name file)) ''.pdf'' \<or> fsize file > 4718592"
  shows "snd (handleUpload env st (Some file)) = []
     \<and> fst (handleUpload env st (Some file))
         = st\<lparr>error := Some (if \<not> endsWith (toLowerCase (name file)) ''.pdf''
                              then Msg ''Only PDF files are supported''
                              else FileTooLarge (fsize file))\<rparr>
     \<and> documents (fst (handleUpload env st (Some file))) = documents st"
  using assms by (auto simp: handleUpload_def maxSize_value)

text \<open>
  Witness: an image of 10 bytes is refused for its name, a PDF of 5000000 bytes for
  its size, both with no effect but the error message.
\<close>

theorem handleUpload_rejects_witness:
  "handleUpload upload_env_example uploader_state_example (Some \<lparr>name = ''scan.PNG'', fsize = 10\<rparr>)
     = (uploader_state_example\<lparr>error := Some (Msg ''Only PDF files are supported'')\<rparr>, [])
   \<and> handleUpload upload_env_example uploader_state_example
        (Some \<lparr>name = ''Report.PDF'', fsize = 5000000\<rparr>)
     = (uploader_state_example\<lparr>error := Some (FileTooLarge 5000000)\<rparr>, [])"
proof -
  have a: "\<not> endsWith (toLowerCase (name \<lparr>name = ''scan.PNG'', fsize = 10\<rparr>)) ''.pdf''
           \<or> fsize \<lparr>name = ''scan.PNG'', fsize = 10\<rparr> > 4718592"
    by (simp add: endsWith_def toLowerCase_def toLowerCase_char_def)
  have b: "\<not> endsWith (toLowerCase (name \<lparr>name = ''Report.PDF'', fsize = 5000000\<rparr>)) ''.pdf''
           \<or> fsize \<lparr>name = ''Report.PDF'', fsize = 5000000\<rparr> > 4718592"
    by simp
  have c: "endsWith (toLowerCase ''Report.PDF'') ''.pdf''"
    by (simp add: endsWith_def toLowerCase_def toLowerCase_char_def)
  show ?thesis
    using handleUpload_rejects_before_any_request
            [OF a, of upload_env_example uploader_state_example]
          handleUpload_rejects_before_any_request
            [OF b, of upload_env_example uploader_state_example] a c
    by (simp add: prod_eq_iff)
qed

section \<open>Properties of the discharge page\<close>

lemma submit_image_calls:
  "\<exists>c. snd (submit_image env st f) = [c] \<and> submit_body c = [(''file'', FormFile f)]"
  by (simp add: submit_image_def Let_def)

lemma submit_simplify_calls:
  "\<exists>c. snd (submit_simplify env st) = [c]
     \<and> submit_body c = (case selected_file st of
                           Some f \<Rightarrow> [(''file'', FormFile f)]
                         | None \<Rightarrow> [(''text'', FormText (text_value st))])"
  by (simp add: submit_simplify_def Let_def)

lemma handleSubmit_with_file:
  assumes "selected_file st = Some f"
  shows "\<exists>c. snd (handleSubmit env st) = [c] \<and> submit_body c = [(''file'', FormFile f)]"
proof (cases "uploadMode st = Some ModeImage")
  case True
  with assms show ?thesis
    using submit_image_calls [of env "st\<lparr>loading := True, page_error := None, result := None\<rparr>" f]
    by (simp add: handleSubmit_def Let_def)
next
  case False
  with assms show ?thesis
    using submit_simplify_calls [of env "st\<lparr>loading := True, page_error := None, result := None\<rparr>"]
    by (simp add: handleSubmit_def Let_def)
qed

lemma handleSubmit_with_text_only:
  assumes "selected_file st = None" and "text_value st \<noteq> []"
  shows "\<exists>c. snd (handleSubmit env st) = [c]
           \<and> submit_body c = [(''text'', FormText (text_value st))]"
  using assms
    submit_simplify_calls [of env "st\<lparr>loading := True, page_error := None, result := None\<rparr>"]
  by (simp add: handleSubmit_def Let_def)

lemma handleSubmit_with_nothing:
  assumes "selected_file st = None" and "text_value st = []"
  shows "handleSubmit env st
           = (st\<lparr>page_error := Some ''Please provide a file, image, or text.''\<rparr>, [])"
  using assms by (simp add: handleSubmit_def)

text \<open>
  C10. In \<open>handleSubmit\<close> a selected file takes precedence over pasted text. When a
  file is selected, exactly one request is made and its form data is the single
  field \<open>file\<close> holding that file, whatever the text is; any request whose form
  data has a field \<open>text\<close> is made with no file selected; with no file and a
  non-empty text the form data is the single field \<open>text\<close>; and with no file and an
  empty text no request is made and the error is
  \<open>Please provide a file, image, or text.\<close>
\<close>

theorem handleSubmit_file_precedes_text:
  "(\<forall>f. selected_file st = Some f \<longrightarrow>
        (\<exists>c. snd (handleSubmit env st) = [c] \<and> submit_body c = [(''file'', FormFile f)]))
   \<and> (\<forall>c \<in> set (snd (handleSubmit env st)).
        ''text'' \<in> fst ` set (submit_body c) \<longrightarrow> selected_file st = None)
   \<and> (selected_file st = None \<and> text_value st \<noteq> [] \<longrightarrow>
        (\<exists>c. snd (handleSubmit env st) = [c]
           \<and> submit_body c = [(''text'', FormText (text_value st))]))
   \<and> (selected_file st = None \<and> text_value st = [] \<longrightarrow>
        handleSubmit env st
          = (st\<lparr>page_error := Some ''Please provide a file, image, or text.''\<rparr>, []))"
proof -
  have "\<forall>c \<in> set (snd (handleSubmit env st)).
          ''text'' \<in> fst ` set (submit_body c) \<longrightarrow> selected_file st = None"
  proof (cases "selected_file st")
    case None
    then show ?thesis by simp
  next
    case (Some f)
    then obtain c where "snd (handleSubmit env st) = [c]"
      and "submit_body c = [(''file'', FormFile f)]"
      using handleSubmit_with_file by blast
    then show ?thesis by simp
  qed
  then show ?thesis
    using handleSubmit_with_file handleSubmit_with_text_only handleSubmit_with_nothing
    by blast
qed

text \<open>
  Witness: a file selected together with a text (the text is not sent), in image
  mode and in file mode; a text alone; and nothing at all.
\<close>

theorem handleSubmit_file_precedes_text_witness:
  "map submit_body (snd (handleSubmit submit_env_example
       \<lparr>selected_file = Some \<lparr>name = ''a.pdf'', fsize = 7\<rparr>, text_value = ''pasted'',
        loading = False, result = None, page_error = None, uploadMode = Some ModeFile\<rparr>))
     = [[(''file'', FormFile \<lparr>name = ''a.pdf'', fsize = 7\<rparr>)]]
   \<and> map submit_body (snd (handleSubmit submit_env_example
       \<lparr>selected_file = Some \<lparr>name = ''a.jpg'', fsize = 7\<rparr>, text_value = ''pasted'',
        loading = False, result = None, page_error = None, uploadMode = Some ModeImage\<rparr>))
     = [[(''file'', FormFile \<lparr>name = ''a.jpg'', fsize = 7\<rparr>)]]
   \<and> map submit_body (snd (handleSubmit submit_env_example
       \<lparr>selected_file = None, text_value = ''pasted'',
        loading = False, result = None, page_error = None, uploadMode = None\<rparr>))
     = [[(''text'', FormText ''pasted'')]]
   \<and> handleSubmit submit_env_example
       \<lparr>selected_file = None, text_value = [],
        loading = False, result = None, page_error = None, uploadMode = None\<rparr>
     = (\<lparr>selected_file = None, text_value = [], loading = False, result = None,
         page_error = Some ''Please provide a file, image, or text.'', uploadMode = None\<rparr>, [])"
  using handleSubmit_file_precedes_text [of
      "\<lparr>selected_file = Some \<lparr>name = ''a.pdf'', fsize = 7\<rparr>, text_value = ''pasted'',
        loading = False, result = None, page_error = None, uploadMode = Some ModeFile\<rparr>"
      submit_env_example]
    handleSubmit_file_precedes_text [of
      "\<lparr>selected_file = Some \<lparr>name = ''a.jpg'', fsize = 7\<rparr>, text_value = ''pasted'',
        loading = False, result = None, page_error = None, uploadMode = Some ModeImage\<rparr>"
      submit_env_example]
    handleSubmit_file_precedes_text [of
      "\<lparr>selected_file = None, text_value = ''pasted'',
        loading = False, result = None, page_error = None, uploadMode = None\<rparr>"
      submit_env_example]
    handleSubmit_file_precedes_text [of
      "\<lparr>selected_file = None, text_value = [],
        loading = False, result = None, page_error = None, uploadMode = None\<rparr>"
      submit_env_example]
  by auto

section \<open>Properties of the monotonic merge\<close>

lemma applySummary_step_through:
  assumes "sessions st sid = Some s"
  shows "\<exists>s'. sessions (case applySummary st sid' tx q of Inl e \<Rightarrow> st | Inr st' \<Rightarrow> st') sid
                 = Some s'
            \<and> summary_through_sequence s'
                = (if sid' = sid then max (summary_through_sequence s) q
                   else summary_through_sequence s)"
  using assms by (auto simp: applySummary_def split: option.splits)

lemma applySummaries_append:
  "applySummaries st (calls @ later) = applySummaries (applySummaries st calls) later"
  by (induction st calls rule: applySummaries.induct) simp_all

lemma finite_throughs: "finite {q. \<exists>tx. (sid, tx, q) \<in> set calls}"
proof -
  have "{q. \<exists>tx. (sid, tx, q) \<in> set calls} \<subseteq> (snd \<circ> snd) ` set calls"
    by force
  then show ?thesis
    by (rule finite_subset) simp
qed

text \<open>
  After any sequence of calls the stored boundary of a session is the greatest of its
  starting value and the boundaries supplied for it: it depends on which calls
  arrived, not on their order.
\<close>

lemma applySummaries_through:
  assumes "sessions st sid = Some s"
  shows "\<exists>s'. sessions (applySummaries st calls) sid = Some s'
            \<and> summary_through_sequence s'
                = Max (insert (summary_through_sequence s)
                         {q. \<exists>tx. (sid, tx, q) \<in> set calls})"
  using assms
proof (induction st calls arbitrary: s rule: applySummaries.induct)
  case (1 st)
  then show ?case by simp
next
  case (2 st sid' tx q calls)
  let ?st1 = "case applySummary st sid' tx q of Inl e \<Rightarrow> st | Inr st' \<Rightarrow> st'"
  let ?Q = "{q. \<exists>tx. (sid, tx, q) \<in> set calls}"
  obtain s1 where s1: "sessions ?st1 sid = Some s1"
    and t1: "summary_through_sequence s1
               = (if sid' = sid then max (summary_through_sequence s) q
                  else summary_through_sequence s)"
    using applySummary_step_through [OF "2.prems"] by blast
  from "2.IH" [OF s1] obtain s' where s': "sessions (applySummaries ?st1 calls) sid = Some s'"
    and t': "summary_through_sequence s' = Max (insert (summary_through_sequence s1) ?Q)"
    by blast
  have fin: "finite ?Q" by (rule finite_throughs)
  show ?case
  proof (cases "sid' = sid")
    case True
    then have eq: "{q'. \<exists>tx'. (sid, tx', q') \<in> set ((sid', tx, q) # calls)} = insert q ?Q"
      by auto
    have "Max (insert (max (summary_through_sequence s) q) ?Q)
            = Max (insert (summary_through_sequence s) (insert q ?Q))"
      using fin by (cases "?Q = {}") (simp_all add: max.assoc max.commute max.left_commute)
    then show ?thesis using s' t' t1 True unfolding eq by simp
  next
    case False
    then have eq: "{q'. \<exists>tx'. (sid, tx', q') \<in> set ((sid', tx, q) # calls)} = ?Q"
      by auto
    show ?thesis using s' t' t1 False unfolding eq by simp
  qed
qed

lemma applySummaries_monotone:
  assumes "sessions st sid = Some s"
  shows "\<exists>s'. sessions (applySummaries st calls) sid = Some s'
            \<and> summary_through_sequence s \<le> summary_through_sequence s'"
proof -
  obtain s' where "sessions (applySummaries st calls) sid = Some s'"
    and "summary_through_sequence s'
           = Max (insert (summary_through_sequence s) {q. \<exists>tx. (sid, tx, q) \<in> set calls})"
    using applySummaries_through [OF assms] by blast
  then show ?thesis
    using finite_throughs [of sid calls] by auto
qed

text \<open>
  C4. For every session and every sequence of \<open>applySummary\<close> calls, whatever their
  order of arrival, \<open>summary_through_sequence\<close> never decreases: its value after
  the calls is at least its value before, and its value after any further calls is at
  least that. A call whose \<open>through_sequence\<close> is not strictly greater than the
  stored value succeeds and leaves the store, hence \<open>context_summary\<close> and
  \<open>summary_through_sequence\<close>, unchanged.
\<close>

theorem applySummary_monotonic_merge:
  "(\<forall>s. sessions st sid = Some s \<longrightarrow>
      (\<exists>s1 s2. sessions (applySummaries st calls) sid = Some s1
         \<and> sessions (applySummaries st (calls @ later)) sid = Some s2
         \<and> summary_through_sequence s \<le> summary_through_sequence s1
         \<and> summary_through_sequence s1 \<le> summary_through_sequence s2))
   \<and> (\<forall>s. sessions st sid = Some s \<and> q \<le> summary_through_sequence s \<longrightarrow>
        applySummary st sid tx q = Inr st)"
proof (intro conjI allI impI)
  fix s assume s: "sessions st sid = Some s"
  obtain s1 where s1: "sessions (applySummaries st calls) sid = Some s1"
    and le1: "summary_through_sequence s \<le> summary_through_sequence s1"
    using applySummaries_monotone [OF s] by blast
  obtain s2 where "sessions (applySummaries (applySummaries st calls) later) sid = Some s2"
    and "summary_through_sequence s1 \<le> summary_through_sequence s2"
    using applySummaries_monotone [OF s1] by blast
  with s1 le1 show "\<exists>s1 s2. sessions (applySummaries st calls) sid = Some s1
         \<and> sessions (applySummaries st (calls @ later)) sid = Some s2
         \<and> summary_through_sequence s \<le> summary_through_sequence s1
         \<and> summary_through_sequence s1 \<le> summary_through_sequence s2"
    by (auto simp: applySummaries_append)
next
  fix s assume "sessions st sid = Some s \<and> q \<le> summary_through_sequence s"
  then show "applySummary st sid tx q = Inr st"
    by (simp add: applySummary_def)
qed

text \<open>
  Witness: session \<open>s1\<close> holds the summary \<open>old\<close> through sequence 2. A summary
  through 8 arrives, then a slower one through 5, then one through 2: the first is
  merged, the other two change nothing.
\<close>

theorem applySummary_monotonic_merge_witness:
  "map_option (\<lambda>s. (context_summary s, summary_through_sequence s))
     (sessions (applySummaries store_example [(''s1'', ''new'', 8)]) ''s1'')
     = Some (Some ''new'', 8)
   \<and> map_option (\<lambda>s. (context_summary s, summary_through_sequence s))
     (sessions (applySummaries store_example ([(''s1'', ''new'', 8)] @ [(''s1'', ''slow'', 5)])) ''s1'')
     = Some (Some ''new'', 8)
   \<and> applySummary store_example ''s1'' ''same'' 2 = Inr store_example"
proof -
  have s: "sessions store_example ''s1'' = Some session_example"
    by (simp add: store_example_def)
  have q: "2 \<le> summary_through_sequence session_example"
    by (simp add: session_example_def)
  have "applySummary store_example ''s1'' ''same'' 2 = Inr store_example"
    using applySummary_monotonic_merge
            [of store_example "''s1''" "[(''s1'', ''new'', 8)]" "[(''s1'', ''slow'', 5)]" 2 "''same''"]
          s q
    by simp
  then show ?thesis
    by (simp add: store_example_def session_example_def applySummary_def)
qed

section \<open>Properties of the context assembler\<close>

declare trim.simps [simp del]

text \<open>
  \<open>trim\<close> drops the \<open>k\<close> oldest verbatim turns and nothing else, where every
  smaller number of dropped turns leaves the package above the ceiling, and it stops
  with the budget met or with no verbatim turn left.
\<close>

lemma trim_characterised:
  "\<exists>k\<le>length (window_turns p).
      trim cfg p = p\<lparr>window_turns := drop k (window_turns p)\<rparr>
      \<and> (\<forall>j<k. ceiling cfg
                 < package_tokens cfg (p\<lparr>window_turns := drop j (window_turns p)\<rparr>))
      \<and> (package_tokens cfg (trim cfg p) \<le> ceiling cfg \<or> window_turns (trim cfg p) = [])"
proof (induction cfg p rule: trim.induct)
  case (1 cfg p)
  show ?case
  proof (cases "package_tokens cfg p > ceiling cfg \<and> window_turns p \<noteq> []")
    case False
    then have "trim cfg p = p"
      by (simp add: trim.simps)
    with False show ?thesis
      by (intro exI [of _ 0]) auto
  next
    case True
    let ?p' = "p\<lparr>window_turns := tl (window_turns p)\<rparr>"
    have step: "trim cfg p = trim cfg ?p'"
      using True by (subst trim.simps) simp
    from "1.IH" [OF True] obtain k where k: "k \<le> length (window_turns ?p')"
      and eq: "trim cfg ?p' = ?p'\<lparr>window_turns := drop k (window_turns ?p')\<rparr>"
      and over: "\<forall>j<k. ceiling cfg
                   < package_tokens cfg (?p'\<lparr>window_turns := drop j (window_turns ?p')\<rparr>)"
      and met: "package_tokens cfg (trim cfg ?p') \<le> ceiling cfg
                 \<or> window_turns (trim cfg ?p') = []"
      by blast
    have d: "\<And>j. drop j (tl (window_turns p)) = drop (Suc j) (window_turns p)"
      by (simp add: drop_Suc)
    have "Suc k \<le> length (window_turns p)"
      using k True by (cases "window_turns p") auto
    moreover have "trim cfg p = p\<lparr>window_turns := drop (Suc k) (window_turns p)\<rparr>"
      using step eq d by simp
    moreover have "\<forall>j<Suc k. ceiling cfg
                     < package_tokens cfg (p\<lparr>window_turns := drop j (window_turns p)\<rparr>)"
    proof (intro allI impI)
      fix j assume j: "j < Suc k"
      show "ceiling cfg < package_tokens cfg (p\<lparr>window_turns := drop j (window_turns p)\<rparr>)"
      proof (cases j)
        case 0
        then show ?thesis using True by simp
      next
        case (Suc j')
        then have "j' < k" using j by simp
        then show ?thesis using over d Suc by simp
      qed
    qed
    moreover have "package_tokens cfg (trim cfg p) \<le> ceiling cfg
                     \<or> window_turns (trim cfg p) = []"
      using met step by simp
    ultimately show ?thesis by blast
  qed
qed

lemma trim_within_budget:
  "package_tokens cfg p \<le> ceiling cfg \<Longrightarrow> trim cfg p = p"
  by (simp add: trim.simps)

text \<open>
  C5. Let \<open>a\<close> be the package assembled for a session, before the check against the
  ceiling. \<open>buildContext\<close> returns \<open>a\<close> with its \<open>k\<close> oldest verbatim turns removed
  and everything else as it was: the preamble, the profile block, the summary block
  and the current query are those of \<open>a\<close>. Removing fewer than \<open>k\<close> turns leaves the
  estimate above the ceiling; the result meets the ceiling or has no verbatim turn
  left; and when \<open>a\<close> exceeds the ceiling and has a verbatim turn, at least the oldest
  turn is removed.
\<close>

theorem buildContext_trims_oldest_first:
  assumes "assemble cfg st session_id profile query = Inr a"
  shows "\<exists>p k. buildContext cfg st session_id profile query = Inr p
           \<and> summary_block p = summary_block a
           \<and> current_query p = query
           \<and> system_preamble p = system_preamble a
           \<and> profile_block p = profile
           \<and> k \<le> length (window_turns a)
           \<and> window_turns p = drop k (window_turns a)
           \<and> (\<forall>j<k. ceiling cfg
                      < package_tokens cfg (a\<lparr>window_turns := drop j (window_turns a)\<rparr>))
           \<and> (package_tokens cfg p \<le> ceiling cfg \<or> window_turns p = [])
           \<and> (ceiling cfg < package_tokens cfg a \<and> window_turns a \<noteq> [] \<longrightarrow> 0 < k)"
proof -
  obtain k where k: "k \<le> length (window_turns a)"
    and eq: "trim cfg a = a\<lparr>window_turns := drop k (window_turns a)\<rparr>"
    and over: "\<forall>j<k. ceiling cfg
                 < package_tokens cfg (a\<lparr>window_turns := drop j (window_turns a)\<rparr>)"
    and met: "package_tokens cfg (trim cfg a) \<le> ceiling cfg \<or> window_turns (trim cfg a) = []"
    using trim_characterised [of a cfg] by blast
  have b: "buildContext cfg st session_id profile query = Inr (trim cfg a)"
    using assms by (simp add: buildContext_def)
  have q: "current_query a = query" and pf: "profile_block a = profile"
    using assms by (auto simp: assemble_def split: option.splits)
  have pos: "ceiling cfg < package_tokens cfg a \<and> window_turns a \<noteq> [] \<longrightarrow> 0 < k"
  proof (intro impI)
    assume h: "ceiling cfg < package_tokens cfg a \<and> window_turns a \<noteq> []"
    show "0 < k"
    proof (rule ccontr)
      assume "\<not> 0 < k"
      then have "trim cfg a = a" using eq by simp
      with met h show False by simp
    qed
  qed
  show ?thesis
    using b k eq over met q pf pos
    by (intro exI [of _ "trim cfg a"] exI [of _ k]) simp
qed

text \<open>
  Witness: session \<open>s1\<close> of the example store, characters counted as tokens and a
  ceiling of 20. The assembled package holds the summary and the 10 newest messages
  and is estimated at 40 tokens; \<open>buildContext\<close> keeps the summary and the query and
  the three newest turns, at 19 tokens.
\<close>

theorem buildContext_trims_witness:
  "assemble assembler_config_example store_example ''s1'' ''pf'' ''q?''
     = Inr \<lparr>system_preamble = ''sys'', profile_block = ''pf'', summary_block = Some ''old'',
            window_turns = [(User, ''m03''), (Assistant, ''m04''), (User, ''m05''),
                            (Assistant, ''m06''), (User, ''m07''), (Assistant, ''m08''),
                            (User, ''m09''), (Assistant, ''m10''), (User, ''m11''),
                            (Assistant, ''m12'')],
            current_query = ''q?''\<rparr>
   \<and> buildContext assembler_config_example store_example ''s1'' ''pf'' ''q?''
     = Inr \<lparr>system_preamble = ''sys'', profile_block = ''pf'', summary_block = Some ''old'',
            window_turns = [(Assistant, ''m10''), (User, ''m11''), (Assistant, ''m12'')],
            current_query = ''q?''\<rparr>"
proof -
  have a: "assemble assembler_config_example store_example ''s1'' ''pf'' ''q?''
     = Inr \<lparr>system_preamble = ''sys'', profile_block = ''pf'', summary_block = Some ''old'',
            window_turns = [(User, ''m03''), (Assistant, ''m04''), (User, ''m05''),
                            (Assistant, ''m06''), (User, ''m07''), (Assistant, ''m08''),
                            (User, ''m09''), (Assistant, ''m10''), (User, ''m11''),
                            (Assistant, ''m12'')],
            current_query = ''q?''\<rparr>"
    by (simp add: assemble_def store_example_def session_example_def summary_state_of_def
        readLastN_def message_example_def assembler_config_example_def)
  obtain p where b: "buildContext assembler_config_example store_example ''s1'' ''pf'' ''q?'' = Inr p"
    using buildContext_trims_oldest_first [OF a] by blast
  have "buildContext assembler_config_example store_example ''s1'' ''pf'' ''q?''
     = Inr \<lparr>system_preamble = ''sys'', profile_block = ''pf'', summary_block = Some ''old'',
            window_turns = [(Assistant, ''m10''), (User, ''m11''), (Assistant, ''m12'')],
            current_query = ''q?''\<rparr>"
    unfolding buildContext_def a
    by (simp add: trim.simps package_tokens_def package_pairs_def assembler_config_example_def)
  with a b show ?thesis by simp
qed

end
